theory Spec2Isabelle
  imports Main "HOL-Library.Word"
begin

section \<open>Boxcat: the BCAT backend of \<^verbatim>\<open>core/hle/service/bcat/backend/boxcat.cpp\<close>\<close>

type_synonym u8 = "8 word"
type_synonym u64 = "64 word"
type_synonym bytes = "u8 list"

subsection \<open>Formatting: the \<^verbatim>\<open>fmt\<close> format specifications the file uses\<close>

text \<open>
  The source formats every identifier with \<^verbatim>\<open>{:016X}\<close> and every byte of a hex string
  with \<^verbatim>\<open>{:02X}\<close> or \<^verbatim>\<open>{:02x}\<close>: the digits of the value in base 16, most significant
  first and at least one digit, padded on the left with \<^verbatim>\<open>0\<close> to the minimum width.
  The width is a minimum, so a longer number would not be cut.
\<close>

definition hex_digit :: "bool \<Rightarrow> nat \<Rightarrow> char" where
  "hex_digit upper d = (if upper then ''0123456789ABCDEF'' else ''0123456789abcdef'') ! d"

function hex_str :: "bool \<Rightarrow> nat \<Rightarrow> string" where
  "hex_str upper n =
     (if n < 16 then [hex_digit upper n]
      else hex_str upper (n div 16) @ [hex_digit upper (n mod 16)])"
  by pat_completeness auto
termination
  by (relation "measure (\<lambda>(upper, n). n)") auto

declare hex_str.simps [simp del]

definition pad_zero :: "nat \<Rightarrow> string \<Rightarrow> string" where
  "pad_zero width s = replicate (width - length s) (CHR ''0'') @ s"

definition format_016X :: "u64 \<Rightarrow> string" where
  "format_016X v = pad_zero 16 (hex_str True (unat v))"

definition format_02 :: "bool \<Rightarrow> u8 \<Rightarrow> string" where
  "format_02 upper b = pad_zero 2 (hex_str upper (unat b))"

text \<open>
  Modelled from the spec: \<^verbatim>\<open>Common::HexArrayToString\<close> (\<^verbatim>\<open>common/hex_util.h\<close>, not among
  the sources) writes each byte of the array as two hex digits, uppercase unless its
  second argument is false.
\<close>

definition HexArrayToString :: "bytes \<Rightarrow> bool \<Rightarrow> string" where
  "HexArrayToString array upper = concat (map (format_02 upper) array)"

text \<open>Reading an uppercase hex string back as a number (used to state what a formatted
  identifier denotes).\<close>

definition digit_value :: "char \<Rightarrow> nat" where
  "digit_value c = length (takeWhile (\<lambda>d. d \<noteq> c) ''0123456789ABCDEF'')"

definition hex_value :: "string \<Rightarrow> nat" where
  "hex_value s = foldl (\<lambda>acc c. acc * 16 + digit_value c) 0 s"

subsection \<open>Constants of the wire protocol\<close>

definition BOXCAT_HOSTNAME :: string where
  "BOXCAT_HOSTNAME = ''api.yuzu-emu.org''"

definition BOXCAT_PATHNAME_DATA :: "u64 \<Rightarrow> string" where
  "BOXCAT_PATHNAME_DATA title = ''/boxcat/titles/'' @ format_016X title @ ''/data''"

definition BOXCAT_PATHNAME_LAUNCHPARAM :: "u64 \<Rightarrow> string" where
  "BOXCAT_PATHNAME_LAUNCHPARAM title = ''/boxcat/titles/'' @ format_016X title @ ''/launchparam''"

definition BOXCAT_PATHNAME_EVENTS :: string where
  "BOXCAT_PATHNAME_EVENTS = ''/boxcat/events''"

definition BOXCAT_API_VERSION :: string where
  "BOXCAT_API_VERSION = ''1''"

definition BOXCAT_CLIENT_TYPE :: string where
  "BOXCAT_CLIENT_TYPE = ''yuzu''"

definition PORT :: nat where
  "PORT = 443"

definition TIMEOUT_SECONDS :: nat where
  "TIMEOUT_SECONDS = 30"

text \<open>The HTTP status codes of \<^verbatim>\<open>enum class ResponseStatus\<close>.\<close>

definition ResponseStatus_Ok :: int where
  "ResponseStatus_Ok = 200"

definition ResponseStatus_BadClientVersion :: int where
  "ResponseStatus_BadClientVersion = 301"

definition ResponseStatus_NoUpdate :: int where
  "ResponseStatus_NoUpdate = 304"

definition ResponseStatus_NoMatchTitleId :: int where
  "ResponseStatus_NoMatchTitleId = 404"

definition ResponseStatus_NoMatchBuildId :: int where
  "ResponseStatus_NoMatchBuildId = 406"

datatype DownloadResult =
    Success
  | NoResponse
  | GeneralWebError
  | NoMatchTitleId
  | NoMatchBuildId
  | InvalidContentType
  | GeneralFSError
  | BadClientVersion

text \<open>\<^verbatim>\<open>static_cast<std::size_t>(res)\<close>: the enumerators count from 0 in declaration order.\<close>

fun result_index :: "DownloadResult \<Rightarrow> nat" where
  "result_index Success = 0"
| "result_index NoResponse = 1"
| "result_index GeneralWebError = 2"
| "result_index NoMatchTitleId = 3"
| "result_index NoMatchBuildId = 4"
| "result_index InvalidContentType = 5"
| "result_index GeneralFSError = 6"
| "result_index BadClientVersion = 7"

definition DOWNLOAD_RESULT_LOG_MESSAGES :: "string list" where
  "DOWNLOAD_RESULT_LOG_MESSAGES =
     [''Success'',
      ''There was no response from the server.'',
      ''There was a general web error code returned from the server.'',
      ''The title ID of the current game doesn't have a boxcat implementation. If you believe an implementation should be added, contact yuzu support.'',
      ''The build ID of the current version of the game is marked as incompatible with the current BCAT distribution. Try upgrading or downgrading your game version or contacting yuzu support.'',
      ''The content type of the web response was invalid.'',
      ''There was a general filesystem error while saving the zip file.'',
      ''The server is either too new or too old to serve the request. Try using the latest version of an official release of yuzu.'']"

subsection \<open>HTTP: requests, responses and header lookup\<close>

text \<open>
  \<^verbatim>\<open>httplib::Headers\<close> is a multimap from names to values whose keys compare without
  regard to ASCII case; \<^verbatim>\<open>find\<close> gives the first entry under an equivalent key. The
  library is not part of the sources: headers are kept as the list of their entries
  in insertion order, and \<^verbatim>\<open>find\<close> is the first entry whose name is equal after
  \<^verbatim>\<open>tolower\<close>.
\<close>

type_synonym Headers = "(string \<times> string) list"

definition tolower :: "char \<Rightarrow> char" where
  "tolower c =
     (case map_of (zip ''ABCDEFGHIJKLMNOPQRSTUVWXYZ'' ''abcdefghijklmnopqrstuvwxyz'') c of
        None \<Rightarrow> c
      | Some lower \<Rightarrow> lower)"

fun headers_find :: "Headers \<Rightarrow> string \<Rightarrow> string option" where
  "headers_find [] name = None"
| "headers_find ((k, v) # rest) name =
     (if map tolower k = map tolower name then Some v else headers_find rest name)"

text \<open>\<^verbatim>\<open>std::string::find\<close>: the first position where the needle starts, or \<^verbatim>\<open>npos\<close>
  (here \<open>None\<close>).\<close>

fun string_find :: "string \<Rightarrow> string \<Rightarrow> nat option" where
  "string_find [] needle = (if needle = [] then Some 0 else None)"
| "string_find (c # cs) needle =
     (if take (length needle) (c # cs) = needle then Some 0
      else map_option Suc (string_find cs needle))"

record connection =
  conn_host :: string
  conn_port :: nat
  conn_timeout :: nat

record http_request =
  req_conn :: connection
  req_path :: string
  req_headers :: Headers

record http_response =
  resp_status :: int
  resp_headers :: Headers
  resp_body :: bytes

subsection \<open>The virtual file system of the target directories\<close>

text \<open>
  Modelled from the spec: the virtual file system (\<^verbatim>\<open>core/file_sys/vfs.h\<close>, not among the
  sources) provides directory objects with named subdirectories and files. A directory
  handle that is \<^verbatim>\<open>nullptr\<close> is \<open>None\<close>.
\<close>

datatype vdir = VDir (GetName: string) (GetFiles: "(string \<times> bytes) list") (GetSubdirectories: "vdir list")

fun find_dir :: "vdir list \<Rightarrow> string \<Rightarrow> vdir option" where
  "find_dir [] name = None"
| "find_dir (d # ds) name = (if GetName d = name then Some d else find_dir ds name)"

definition GetSubdirectory :: "vdir \<Rightarrow> string \<Rightarrow> vdir option" where
  "GetSubdirectory dir name = find_dir (GetSubdirectories dir) name"

text \<open>A subdirectory handle aliases its parent: what a copy writes through the handle
  of a subdirectory is seen in the parent. \<open>put_subdir\<close> stores the subdirectory back
  under its name.\<close>

fun replace_dir :: "vdir list \<Rightarrow> string \<Rightarrow> vdir \<Rightarrow> vdir list" where
  "replace_dir [] name new = []"
| "replace_dir (d # ds) name new =
     (if GetName d = name then new # ds else d # replace_dir ds name new)"

definition put_subdir :: "vdir \<Rightarrow> string \<Rightarrow> vdir \<Rightarrow> vdir" where
  "put_subdir dir name new =
     VDir (GetName dir) (GetFiles dir) (replace_dir (GetSubdirectories dir) name new)"

subsection \<open>The state the backend acts on, and its collaborators\<close>

datatype hle_event = LockAcquired | CallbackInvoked bool | LockReleased

text \<open>
  The state outside the functions: the files of the host's cache directory (the staging
  files), the HTTP requests issued so far, the error texts shown to the user, the
  trace of the HLE lock and of the completion callback, the target directories the
  directory getter resolves (by title id), the \<^verbatim>\<open>is_syncing\<close> flag and the lines logged.
\<close>

record world =
  files :: "string \<rightharpoonup> bytes"
  requests :: "http_request list"
  error_texts :: "(string \<times> string) list"
  hle_trace :: "hle_event list"
  dirs :: "u64 \<rightharpoonup> vdir"
  is_syncing :: bool
  log_lines :: "string list"

text \<open>
  What the collaborators answer. None of them is in the sources, so each is a
  parameter: the setting \<^verbatim>\<open>Settings::values.bcat_boxcat_local\<close>; the user's cache
  directory \<^verbatim>\<open>FileUtil::GetUserPath(FileUtil::UserPath::CacheDir)\<close>; the remote service
  behind \<^verbatim>\<open>client->Get\<close> (\<open>None\<close> is the null response); \<^verbatim>\<open>mbedtls_sha256\<close>; the
  outcomes of the file operations the source tests (whether a file opens for writing,
  whether it resizes, how many bytes a write or a read transfers); the zip extractor;
  the recursive copy and the recursive delete of the virtual file system, which give
  their boolean and the directory as they leave it; \<^verbatim>\<open>nlohmann::json::parse\<close>
  (\<open>None\<close> is a \<^verbatim>\<open>parse_error\<close>).
\<close>

datatype json =
    JNull
  | JBool bool
  | JNumber int
  | JString string
  | JArray "json list"
  | JObject "(string \<times> json) list"

record env =
  bcat_boxcat_local :: bool
  cache_dir :: string
  http_get :: "http_request \<Rightarrow> http_response option"
  sha256 :: "bytes \<Rightarrow> bytes"
  open_wb :: "string \<Rightarrow> bool"
  resize_ok :: "string \<Rightarrow> nat \<Rightarrow> bool"
  write_count :: "string \<Rightarrow> bytes \<Rightarrow> nat"
  read_count :: "string \<Rightarrow> nat \<Rightarrow> nat"
  ExtractZIP :: "bytes \<Rightarrow> vdir option"
  VfsRawCopyD :: "vdir \<Rightarrow> vdir \<Rightarrow> bool \<times> vdir"
  DeleteSubdirectoryRecursive :: "vdir \<Rightarrow> string \<Rightarrow> bool \<times> vdir"
  json_parse :: "bytes \<Rightarrow> json option"

definition LOG :: "string \<Rightarrow> world \<Rightarrow> world" where
  "LOG line w = w\<lparr>log_lines := log_lines w @ [line]\<rparr>"

subsection \<open>Host files\<close>

text \<open>
  Modelled from the spec: \<^verbatim>\<open>FileUtil\<close> (\<^verbatim>\<open>common/file_util.h\<close>, not among the sources).
  \<^verbatim>\<open>Exists\<close> tells whether the path holds a file; \<^verbatim>\<open>Delete\<close> removes it; an \<^verbatim>\<open>IOFile\<close>
  opened \<^verbatim>\<open>"rb"\<close> has the size of the file (0 when there is none) and \<^verbatim>\<open>ReadBytes\<close> fills
  the first bytes of a zeroed buffer, as many as the read transfers; an \<^verbatim>\<open>IOFile\<close>
  opened \<^verbatim>\<open>"wb"\<close> creates the file or cuts it to length 0, \<^verbatim>\<open>Resize\<close> sets its length
  (new bytes are 0) and \<^verbatim>\<open>WriteBytes\<close> overwrites its first bytes, as many as the
  write transfers.
\<close>

definition Exists :: "world \<Rightarrow> string \<Rightarrow> bool" where
  "Exists w p = (files w p \<noteq> None)"

definition Delete :: "string \<Rightarrow> world \<Rightarrow> world" where
  "Delete p w = w\<lparr>files := (files w)(p := None)\<rparr>"

definition GetSize :: "world \<Rightarrow> string \<Rightarrow> nat" where
  "GetSize w p = (case files w p of None \<Rightarrow> 0 | Some content \<Rightarrow> length content)"

definition ReadBytes :: "env \<Rightarrow> world \<Rightarrow> string \<Rightarrow> nat \<Rightarrow> nat \<times> bytes" where
  "ReadBytes e w p n =
     (let content = (case files w p of None \<Rightarrow> [] | Some c \<Rightarrow> c);
          k = read_count e p n
      in (k, take n (take k content @ replicate n 0)))"

definition open_truncate :: "string \<Rightarrow> world \<Rightarrow> world" where
  "open_truncate p w = w\<lparr>files := (files w)(p \<mapsto> [])\<rparr>"

definition Resize :: "string \<Rightarrow> nat \<Rightarrow> world \<Rightarrow> world" where
  "Resize p n w = w\<lparr>files := (files w)(p \<mapsto> replicate n 0)\<rparr>"

definition WriteBytes :: "string \<Rightarrow> bytes \<Rightarrow> nat \<Rightarrow> world \<Rightarrow> world" where
  "WriteBytes p data k w =
     w\<lparr>files := (files w)(p \<mapsto>
        (let old = (case files w p of None \<Rightarrow> [] | Some c \<Rightarrow> c)
         in take k data @ drop (min k (length data)) old))\<rparr>"

definition GetBINFilePath :: "env \<Rightarrow> u64 \<Rightarrow> string" where
  "GetBINFilePath e title = cache_dir e @ ''bcat/'' @ format_016X title @ ''/launchparam.bin''"

definition GetZIPFilePath :: "env \<Rightarrow> u64 \<Rightarrow> string" where
  "GetZIPFilePath e title = cache_dir e @ ''bcat/'' @ format_016X title @ ''/data.zip''"

subsection \<open>Result presentation\<close>

text \<open>\<^verbatim>\<open>HandleDownloadDisplayResult\<close>: the results listed return at once; every other
  result reaches \<^verbatim>\<open>ShowCustomErrorText\<close> of the error applet, recorded here with its
  main text and its detail text.\<close>

definition HandleDownloadDisplayResult :: "DownloadResult \<Rightarrow> world \<Rightarrow> world" where
  "HandleDownloadDisplayResult res w =
     (if res = Success \<or> res = NoResponse \<or> res = GeneralWebError \<or> res = GeneralFSError \<or>
         res = NoMatchTitleId \<or> res = InvalidContentType
      then w
      else w\<lparr>error_texts := error_texts w @
             [(''There was an error while attempting to use Boxcat.'',
               DOWNLOAD_RESULT_LOG_MESSAGES ! result_index res)]\<rparr>)"

subsection \<open>The transfer client\<close>

text \<open>\<^verbatim>\<open>class Boxcat::Client\<close>. Its fields \<^verbatim>\<open>title_id\<close> and \<^verbatim>\<open>build_id\<close> carry the prefix
  \<open>client_\<close> here, the names without prefix being the fields of \<^verbatim>\<open>TitleIDVersion\<close>.
  \<^verbatim>\<open>client\<close> is the connection, \<open>None\<close> until the first download makes it.\<close>

record Client =
  client :: "connection option"
  path :: string
  client_title_id :: u64
  client_build_id :: u64

record TitleIDVersion =
  title_id :: u64
  build_id :: u64

definition new_Client :: "string \<Rightarrow> u64 \<Rightarrow> u64 \<Rightarrow> Client" where
  "new_Client p title build =
     \<lparr>client = None, path = p, client_title_id = title, client_build_id = build\<rparr>"

definition DigestFile :: "env \<Rightarrow> bytes \<Rightarrow> bytes" where
  "DigestFile e data = sha256 e data"

text \<open>The connection the download uses: the one the object holds, or a new one to the
  fixed host and port with the operation's timeout.\<close>

definition connection_of :: "Client \<Rightarrow> nat \<Rightarrow> connection" where
  "connection_of c timeout_seconds =
     (case client c of
        None \<Rightarrow> \<lparr>conn_host = BOXCAT_HOSTNAME, conn_port = PORT, conn_timeout = timeout_seconds\<rparr>
      | Some k \<Rightarrow> k)"

text \<open>Lines 131 to 143 of the source: the three fixed headers, and the digest of the
  staging file when one exists.\<close>

definition request_headers :: "env \<Rightarrow> Client \<Rightarrow> string \<Rightarrow> world \<Rightarrow> Headers" where
  "request_headers e c digest_header_name w =
     (let headers = [(''Boxcat-Client-Version'', BOXCAT_API_VERSION),
                     (''Boxcat-Client-Type'', BOXCAT_CLIENT_TYPE),
                     (''Boxcat-Build-Id'', format_016X (client_build_id c))]
      in if Exists w (path c)
         then (let data = snd (ReadBytes e w (path c) (GetSize w (path c)));
                   digest = DigestFile e data
               in headers @ [(digest_header_name, HexArrayToString digest False)])
         else headers)"

definition download_request :: "env \<Rightarrow> Client \<Rightarrow> string \<Rightarrow> nat \<Rightarrow> string \<Rightarrow> world \<Rightarrow> http_request" where
  "download_request e c resolved_path timeout_seconds digest_header_name w =
     \<lparr>req_conn = connection_of c timeout_seconds, req_path = resolved_path,
      req_headers = request_headers e c digest_header_name w\<rparr>"

text \<open>\<^verbatim>\<open>DownloadInternal\<close>. The request is recorded in the state when it is issued; the
  object is local to its caller, which drops it after the one download, so the
  connection it made is not returned. \<^verbatim>\<open>FileUtil::CreateFullPath\<close> makes directories
  only, which the map of the files does not hold; when it fails, the file does not
  open.\<close>

definition DownloadInternal ::
  "env \<Rightarrow> Client \<Rightarrow> string \<Rightarrow> nat \<Rightarrow> string \<Rightarrow> string \<Rightarrow> world \<Rightarrow> DownloadResult \<times> world" where
  "DownloadInternal e c resolved_path timeout_seconds digest_header_name content_type_name w =
     (let request = download_request e c resolved_path timeout_seconds digest_header_name w;
          w1 = w\<lparr>requests := requests w @ [request]\<rparr>
      in case http_get e request of
           None \<Rightarrow> (NoResponse, w1)
         | Some response \<Rightarrow>
             if resp_status response = ResponseStatus_NoUpdate then (Success, w1)
             else if resp_status response = ResponseStatus_BadClientVersion then (BadClientVersion, w1)
             else if resp_status response = ResponseStatus_NoMatchTitleId then (NoMatchTitleId, w1)
             else if resp_status response = ResponseStatus_NoMatchBuildId then (NoMatchBuildId, w1)
             else if resp_status response \<noteq> ResponseStatus_Ok then (GeneralWebError, w1)
             else
               (case headers_find (resp_headers response) ''content-type'' of
                  None \<Rightarrow> (InvalidContentType, w1)
                | Some content_type \<Rightarrow>
                    if string_find content_type content_type_name = None
                    then (InvalidContentType, w1)
                    else if \<not> open_wb e (path c) then (GeneralFSError, w1)
                    else
                      (let w2 = open_truncate (path c) w1 in
                       if \<not> resize_ok e (path c) (length (resp_body response))
                       then (GeneralFSError, w2)
                       else
                         (let w3 = Resize (path c) (length (resp_body response)) w2;
                              k = write_count e (path c) (resp_body response);
                              w4 = WriteBytes (path c) (resp_body response) k w3
                          in if k \<noteq> length (resp_body response)
                             then (GeneralFSError, w4)
                             else (Success, w4)))))"

definition DownloadDataZip :: "env \<Rightarrow> Client \<Rightarrow> world \<Rightarrow> DownloadResult \<times> world" where
  "DownloadDataZip e c w =
     DownloadInternal e c (BOXCAT_PATHNAME_DATA (client_title_id c)) TIMEOUT_SECONDS
       ''Boxcat-Data-Digest'' ''application/zip'' w"

definition DownloadLaunchParam :: "env \<Rightarrow> Client \<Rightarrow> world \<Rightarrow> DownloadResult \<times> world" where
  "DownloadLaunchParam e c w =
     DownloadInternal e c (BOXCAT_PATHNAME_LAUNCHPARAM (client_title_id c)) (TIMEOUT_SECONDS div 3)
       ''Boxcat-LaunchParam-Digest'' ''application/octet-stream'' w"

subsection \<open>The synchronization orchestrator\<close>

definition quote :: string where
  "quote = [CHR 0x27]"

text \<open>\<^verbatim>\<open>operator<<\<close> of a result writes its entry of the message table.\<close>

definition show_result :: "DownloadResult \<Rightarrow> string" where
  "show_result res = DOWNLOAD_RESULT_LOG_MESSAGES ! result_index res"

text \<open>The lambda \<^verbatim>\<open>failure\<close>: the lock guard takes the HLE lock, the callback runs with
  \<^verbatim>\<open>false\<close>, and the guard releases the lock at the end of the lambda.\<close>

definition failure :: "world \<Rightarrow> world" where
  "failure w = w\<lparr>hle_trace := hle_trace w @ [LockAcquired, CallbackInvoked False, LockReleased]\<rparr>"

text \<open>
  \<^verbatim>\<open>SynchronizeInternal\<close>. The directory getter is the field \<open>dirs\<close> of the state (a
  title without an entry resolves to \<^verbatim>\<open>nullptr\<close>); the completion callback is the event
  \<open>CallbackInvoked\<close> of the trace. A copy leaves the directory it wrote to in the state,
  also when it reports failure.
\<close>

definition SynchronizeInternal :: "env \<Rightarrow> TitleIDVersion \<Rightarrow> string option \<Rightarrow> world \<Rightarrow> world" where
  "SynchronizeInternal e title dir_name w =
     (if bcat_boxcat_local e then
        (let w1 = LOG ''Boxcat using local data by override, skipping download.'' w
         in w1\<lparr>hle_trace := hle_trace w1 @ [LockAcquired, CallbackInvoked True, LockReleased]\<rparr>)
      else
        (let zip_path = GetZIPFilePath e (title_id title);
             c = new_Client zip_path (title_id title) (build_id title);
             (res, w1) = DownloadDataZip e c w
         in if res \<noteq> Success then
              (let w2 = LOG (''Boxcat synchronization failed with error '' @ quote @
                             show_result res @ quote @ ''!'') w1;
                   w3 = (if res = NoMatchBuildId \<or> res = NoMatchTitleId
                         then Delete zip_path w2 else w2);
                   w4 = HandleDownloadDisplayResult res w3
               in failure w4)
            else
              (let size = GetSize w1 zip_path;
                   (k, data) = ReadBytes e w1 zip_path size
               in if size = 0 \<or> k \<noteq> size then
                    failure (LOG (''Boxcat failed to read ZIP file at path '' @ quote @
                                  zip_path @ quote @ ''!'') w1)
                  else
                    (case ExtractZIP e data of
                       None \<Rightarrow> failure (LOG ''Boxcat failed to extract ZIP file!'' w1)
                     | Some extracted \<Rightarrow>
                         (case dir_name of
                            None \<Rightarrow>
                              (case dirs w1 (title_id title) of
                                 None \<Rightarrow>
                                   failure (LOG ''Boxcat failed to copy extracted ZIP to target directory!'' w1)
                               | Some target_dir \<Rightarrow>
                                   (let (ok, target_dir') = VfsRawCopyD e extracted target_dir;
                                        w2 = w1\<lparr>dirs := (dirs w1)(title_id title \<mapsto> target_dir')\<rparr>
                                    in if \<not> ok then
                                         failure (LOG ''Boxcat failed to copy extracted ZIP to target directory!'' w2)
                                       else
                                         w2\<lparr>hle_trace := hle_trace w2 @
                                               [LockAcquired, CallbackInvoked True, LockReleased]\<rparr>))
                          | Some name \<Rightarrow>
                              (case dirs w1 (title_id title) of
                                 None \<Rightarrow>
                                   failure (LOG ''Boxcat failed to get directory for title ID!'' w1)
                               | Some target_dir \<Rightarrow>
                                   (case GetSubdirectory target_dir name of
                                      None \<Rightarrow>
                                        failure (LOG ''Boxcat failed to copy extracted ZIP to target directory!'' w1)
                                    | Some target_sub \<Rightarrow>
                                        (case GetSubdirectory extracted name of
                                           None \<Rightarrow>
                                             failure (LOG ''Boxcat failed to copy extracted ZIP to target directory!'' w1)
                                         | Some source_sub \<Rightarrow>
                                             (let (ok, target_sub') = VfsRawCopyD e source_sub target_sub;
                                                  w2 = w1\<lparr>dirs := (dirs w1)(title_id title \<mapsto>
                                                          put_subdir target_dir name target_sub')\<rparr>
                                              in if \<not> ok then
                                                   failure (LOG ''Boxcat failed to copy extracted ZIP to target directory!'' w2)
                                                 else
                                                   w2\<lparr>hle_trace := hle_trace w2 @
                                                         [LockAcquired, CallbackInvoked True, LockReleased]\<rparr>)))))))))"

text \<open>\<^verbatim>\<open>Synchronize\<close> and \<^verbatim>\<open>SynchronizeDirectory\<close> set \<^verbatim>\<open>is_syncing\<close>, start a detached thread
  on \<^verbatim>\<open>SynchronizeInternal\<close> and return \<^verbatim>\<open>true\<close>. The thread's work is taken here as
  one step that follows at once.\<close>

definition Synchronize :: "env \<Rightarrow> TitleIDVersion \<Rightarrow> world \<Rightarrow> bool \<times> world" where
  "Synchronize e title w = (True, SynchronizeInternal e title None (w\<lparr>is_syncing := True\<rparr>))"

definition SynchronizeDirectory :: "env \<Rightarrow> TitleIDVersion \<Rightarrow> string \<Rightarrow> world \<Rightarrow> bool \<times> world" where
  "SynchronizeDirectory e title name w =
     (True, SynchronizeInternal e title (Some name) (w\<lparr>is_syncing := True\<rparr>))"

subsection \<open>Cache maintenance, passphrase, launch parameter\<close>

text \<open>What a call can end in besides returning: a null pointer dereferenced, a
  \<^verbatim>\<open>nlohmann::json::type_error\<close> (with its id) that nothing catches, or the assertion of
  the \<^verbatim>\<open>const\<close> subscript of a JSON object on a key the object does not have.\<close>

datatype fault = NullDereference | JsonTypeError nat | JsonAssertion

text \<open>The second loop of \<^verbatim>\<open>Clear\<close>: delete the subdirectories by name, stop at the first
  deletion that fails.\<close>

fun delete_each :: "env \<Rightarrow> string list \<Rightarrow> vdir \<Rightarrow> bool \<times> vdir" where
  "delete_each e [] dir = (True, dir)"
| "delete_each e (subdir # rest) dir =
     (let (ok, dir') = DeleteSubdirectoryRecursive e dir subdir
      in if \<not> ok then (False, dir') else delete_each e rest dir')"

definition Clear :: "env \<Rightarrow> u64 \<Rightarrow> world \<Rightarrow> fault + (bool \<times> world)" where
  "Clear e title w =
     (if bcat_boxcat_local e then
        Inr (True, LOG ''Boxcat using local data by override, skipping clear.'' w)
      else
        (case dirs w title of
           None \<Rightarrow> Inl NullDereference
         | Some dir \<Rightarrow>
             (let dirnames = map GetName (GetSubdirectories dir);
                  (ok, dir') = delete_each e dirnames dir
              in Inr (ok, w\<lparr>dirs := (dirs w)(title \<mapsto> dir')\<rparr>))))"

definition SetPassphrase :: "u64 \<Rightarrow> bytes \<Rightarrow> world \<Rightarrow> world" where
  "SetPassphrase title passphrase w =
     LOG (''called, title_id='' @ format_016X title @ '', passphrase='' @
          HexArrayToString passphrase True) w"

text \<open>Lines 335 to 344 of \<^verbatim>\<open>GetLaunchParameter\<close>: read the staging file back.\<close>

definition read_launch_parameter :: "env \<Rightarrow> string \<Rightarrow> world \<Rightarrow> bytes option \<times> world" where
  "read_launch_parameter e p w =
     (let size = GetSize w p;
          (k, data) = ReadBytes e w p size
      in if size = 0 \<or> k \<noteq> size then
           (None, LOG (''Boxcat failed to read launch parameter binary at path '' @ quote @
                       p @ quote @ ''!'') w)
         else (Some data, w))"

definition GetLaunchParameter :: "env \<Rightarrow> TitleIDVersion \<Rightarrow> world \<Rightarrow> bytes option \<times> world" where
  "GetLaunchParameter e title w =
     (let p = GetBINFilePath e (title_id title)
      in if bcat_boxcat_local e then
           read_launch_parameter e p
             (LOG ''Boxcat using local data by override, skipping download.'' w)
         else
           (let c = new_Client p (title_id title) (build_id title);
                (res, w1) = DownloadLaunchParam e c w
            in if res \<noteq> Success then
                 (let w2 = LOG (''Boxcat synchronization failed with error '' @ quote @
                                show_result res @ quote @ ''!'') w1;
                      w3 = (if res = NoMatchBuildId \<or> res = NoMatchTitleId
                            then Delete p w2 else w2)
                  in (None, HandleDownloadDisplayResult res w3))
               else read_launch_parameter e p w1))"

subsection \<open>The status feed\<close>

text \<open>
  The JSON library (\<^verbatim>\<open>nlohmann::json\<close>) is not part of the sources; the operations the
  source calls are written here as the library documents them. An object is the list
  of its members, each key once. The subscript of a value that is not \<^verbatim>\<open>const\<close> gives
  the member, \<^verbatim>\<open>null\<close> for a key that is missing and for any key of \<^verbatim>\<open>null\<close>, and throws
  \<^verbatim>\<open>type_error\<close> 305 on a value that is neither an object nor \<^verbatim>\<open>null\<close>. The subscript of
  a \<^verbatim>\<open>const\<close> value requires the key to exist (an assertion; undefined without it) and
  throws \<^verbatim>\<open>type_error\<close> 305 on a value that is not an object. \<^verbatim>\<open>get<bool>\<close> and
  \<^verbatim>\<open>get<std::string>\<close> (also the implicit conversion to \<^verbatim>\<open>std::string\<close>) throw
  \<^verbatim>\<open>type_error\<close> 302 on a value of another type.
\<close>

definition json_at :: "json \<Rightarrow> string \<Rightarrow> fault + json" where
  "json_at j key =
     (case j of
        JNull \<Rightarrow> Inr JNull
      | JObject members \<Rightarrow> Inr (case map_of members key of None \<Rightarrow> JNull | Some v \<Rightarrow> v)
      | _ \<Rightarrow> Inl (JsonTypeError 305))"

definition json_at_const :: "json \<Rightarrow> string \<Rightarrow> fault + json" where
  "json_at_const j key =
     (case j of
        JObject members \<Rightarrow> (case map_of members key of None \<Rightarrow> Inl JsonAssertion | Some v \<Rightarrow> Inr v)
      | _ \<Rightarrow> Inl (JsonTypeError 305))"

definition json_has :: "json \<Rightarrow> string \<Rightarrow> bool" where
  "json_has j key = (case j of JObject members \<Rightarrow> map_of members key \<noteq> None | _ \<Rightarrow> False)"

definition get_bool :: "json \<Rightarrow> fault + bool" where
  "get_bool j = (case j of JBool b \<Rightarrow> Inr b | _ \<Rightarrow> Inl (JsonTypeError 302))"

definition get_string :: "json \<Rightarrow> fault + string" where
  "get_string j = (case j of JString s \<Rightarrow> Inr s | _ \<Rightarrow> Inl (JsonTypeError 302))"

definition is_object :: "json \<Rightarrow> bool" where
  "is_object j = (case j of JObject _ \<Rightarrow> True | _ \<Rightarrow> False)"

definition string_or_nullopt :: "json \<Rightarrow> string option" where
  "string_or_nullopt j = (case j of JString s \<Rightarrow> Some s | _ \<Rightarrow> None)"

datatype StatusResult =
    StatusResult_Success
  | StatusResult_Offline
  | StatusResult_ParseError
  | StatusResult_BadClientVersion

record EventStatus =
  header :: "string option"
  footer :: "string option"
  events :: "string list"

text \<open>The loop over \<^verbatim>\<open>object["events"]\<close>: the strings, in order.\<close>

fun push_events :: "json list \<Rightarrow> string list \<Rightarrow> string list" where
  "push_events [] acc = acc"
| "push_events (event # rest) acc =
     (case event of
        JString s \<Rightarrow> push_events rest (acc @ [s])
      | _ \<Rightarrow> push_events rest acc)"

text \<open>The body of the loop over \<^verbatim>\<open>json["games"]\<close>. The loop variable is \<^verbatim>\<open>const\<close>, so its
  subscripts are the \<^verbatim>\<open>const\<close> ones.\<close>

definition decode_game :: "json \<Rightarrow> (string \<rightharpoonup> EventStatus) \<Rightarrow> fault + (string \<rightharpoonup> EventStatus)" where
  "decode_game object games =
     (if is_object object \<and> json_has object ''name'' then
        (case json_at_const object ''header'' of
           Inl f \<Rightarrow> Inl f
         | Inr h \<Rightarrow>
        (case json_at_const object ''footer'' of
           Inl f \<Rightarrow> Inl f
         | Inr ft \<Rightarrow>
        (case json_at_const object ''events'' of
           Inl f \<Rightarrow> Inl f
         | Inr ev \<Rightarrow>
        (case json_at_const object ''name'' of
           Inl f \<Rightarrow> Inl f
         | Inr nm \<Rightarrow>
        (case get_string nm of
           Inl f \<Rightarrow> Inl f
         | Inr name \<Rightarrow>
             Inr (games(name \<mapsto>
               \<lparr>header = string_or_nullopt h, footer = string_or_nullopt ft,
                events = (case ev of JArray es \<Rightarrow> push_events es [] | _ \<Rightarrow> [])\<rparr>)))))))
      else Inr games)"

text \<open>The loop: an exception leaves the entries inserted so far in \<^verbatim>\<open>games\<close>.\<close>

fun decode_games :: "json list \<Rightarrow> (string \<rightharpoonup> EventStatus) \<Rightarrow> fault option \<times> (string \<rightharpoonup> EventStatus)" where
  "decode_games [] games = (None, games)"
| "decode_games (object # rest) games =
     (case decode_game object games of
        Inl f \<Rightarrow> (Some f, games)
      | Inr games' \<Rightarrow> decode_games rest games')"

definition status_request :: http_request where
  "status_request =
     \<lparr>req_conn = \<lparr>conn_host = BOXCAT_HOSTNAME, conn_port = PORT, conn_timeout = TIMEOUT_SECONDS\<rparr>,
      req_path = BOXCAT_PATHNAME_EVENTS,
      req_headers = [(''Boxcat-Client-Version'', BOXCAT_API_VERSION),
                     (''Boxcat-Client-Type'', BOXCAT_CLIENT_TYPE)]\<rparr>"

text \<open>\<^verbatim>\<open>GetStatus\<close>. \<^verbatim>\<open>global\<close> and \<^verbatim>\<open>games\<close> are the caller's objects, passed by reference:
  they go in and come out. The only handler is for \<^verbatim>\<open>parse_error\<close>, which only
  \<^verbatim>\<open>parse\<close> throws; a \<^verbatim>\<open>type_error\<close> leaves the function (\<open>Inl\<close>).\<close>

definition GetStatus ::
  "env \<Rightarrow> string option \<Rightarrow> (string \<rightharpoonup> EventStatus) \<Rightarrow> world \<Rightarrow>
   (fault + StatusResult) \<times> string option \<times> (string \<rightharpoonup> EventStatus) \<times> world" where
  "GetStatus e global games w =
     (let w1 = w\<lparr>requests := requests w @ [status_request]\<rparr>
      in case http_get e status_request of
           None \<Rightarrow> (Inr StatusResult_Offline, global, games, w1)
         | Some response \<Rightarrow>
             if resp_status response = ResponseStatus_BadClientVersion
             then (Inr StatusResult_BadClientVersion, global, games, w1)
             else
               (case json_parse e (resp_body response) of
                  None \<Rightarrow> (Inr StatusResult_ParseError, global, games, w1)
                | Some js \<Rightarrow>
                    (case json_at js ''online'' of
                       Inl f \<Rightarrow> (Inl f, global, games, w1)
                     | Inr online \<Rightarrow>
                    (case get_bool online of
                       Inl f \<Rightarrow> (Inl f, global, games, w1)
                     | Inr is_online \<Rightarrow>
                         if \<not> is_online then (Inr StatusResult_Offline, global, games, w1)
                         else
                    (case json_at js ''global'' of
                       Inl f \<Rightarrow> (Inl f, global, games, w1)
                     | Inr g \<Rightarrow>
                    (case (if g = JNull then Inr None else map_sum id Some (get_string g)) of
                       Inl f \<Rightarrow> (Inl f, global, games, w1)
                     | Inr global' \<Rightarrow>
                    (case json_at js ''games'' of
                       Inl f \<Rightarrow> (Inl f, global', games, w1)
                     | Inr gs \<Rightarrow>
                         (case gs of
                            JArray objects \<Rightarrow>
                              (case decode_games objects games of
                                 (Some f, games') \<Rightarrow> (Inl f, global', games', w1)
                               | (None, games') \<Rightarrow> (Inr StatusResult_Success, global', games', w1))
                          | _ \<Rightarrow> (Inr StatusResult_Success, global', games, w1)))))))))"

subsection \<open>Concrete environments\<close>

text \<open>A service that answers every request with the given response, on a host where
  every file operation succeeds, the extractor gives the given tree, the copy
  replaces the content of the target by that of the source and the delete removes the
  subdirectories of the name; a state with no file and no directory; and a title.\<close>

definition example_env :: "http_response option \<Rightarrow> vdir option \<Rightarrow> json option \<Rightarrow> env" where
  "example_env response tree js =
     \<lparr>bcat_boxcat_local = False, cache_dir = ''/cache/'', http_get = (\<lambda>request. response),
      sha256 = (\<lambda>data. replicate 32 0), open_wb = (\<lambda>p. True), resize_ok = (\<lambda>p n. True),
      write_count = (\<lambda>p data. length data), read_count = (\<lambda>p n. n),
      ExtractZIP = (\<lambda>data. tree),
      VfsRawCopyD = (\<lambda>src dst. (True, VDir (GetName dst) (GetFiles src) (GetSubdirectories src))),
      DeleteSubdirectoryRecursive =
        (\<lambda>dir name. (True, VDir (GetName dir) (GetFiles dir)
                             (filter (\<lambda>d. GetName d \<noteq> name) (GetSubdirectories dir)))),
      json_parse = (\<lambda>data. js)\<rparr>"

definition example_world :: world where
  "example_world =
     \<lparr>files = Map.empty, requests = [], error_texts = [], hle_trace = [], dirs = Map.empty,
      is_syncing = False, log_lines = []\<rparr>"

definition example_title :: TitleIDVersion where
  "example_title = \<lparr>title_id = 0x0100000000010000, build_id = 0xABCDEF\<rparr>"

definition example_response :: "int \<Rightarrow> Headers \<Rightarrow> bytes \<Rightarrow> http_response" where
  "example_response code hs data = \<lparr>resp_status = code, resp_headers = hs, resp_body = data\<rparr>"

section \<open>Properties\<close>

subsection \<open>Identifiers on the wire\<close>


lemma hex_digit_upper_in: "d < 16 \<Longrightarrow> hex_digit True d \<in> set ''0123456789ABCDEF''"
  unfolding hex_digit_def by (simp only: if_True) (rule nth_mem, simp)

lemma hex_str_upper_chars: "set (hex_str True n) \<subseteq> set ''0123456789ABCDEF''"
proof (induction "True" n rule: hex_str.induct)
  case (1 n)
  show ?case
  proof (cases "n < 16")
    case True
    then show ?thesis using hex_digit_upper_in [of n] by (subst hex_str.simps) simp
  next
    case False
    have "n mod 16 < 16" by simp
    then have "hex_digit True (n mod 16) \<in> set ''0123456789ABCDEF''" by (rule hex_digit_upper_in)
    with False 1 show ?thesis by (subst hex_str.simps) simp
  qed
qed

lemma hex_str_length: "0 < k \<Longrightarrow> n < 16 ^ k \<Longrightarrow> length (hex_str upper n) \<le> k"
proof (induction upper n arbitrary: k rule: hex_str.induct)
  case (1 upper n)
  show ?case
  proof (cases "n < 16")
    case True
    then show ?thesis using 1(2) by (subst hex_str.simps) simp
  next
    case False
    obtain j where k: "k = Suc j" using 1(2) by (cases k) auto
    have "j \<noteq> 0" using False 1(3) k by (cases j) auto
    then have j: "0 < j" by simp
    have "n div 16 < 16 ^ j" using 1(3) k by (simp add: less_mult_imp_div_less mult.commute)
    then have "length (hex_str upper (n div 16)) \<le> j" using 1(1) [OF False j] by simp
    then show ?thesis using False k by (subst hex_str.simps) simp
  qed
qed

lemma digit_value_hex_digit: "d < 16 \<Longrightarrow> digit_value (hex_digit True d) = d"
proof -
  have "list_all (\<lambda>d. digit_value (hex_digit True d) = d) [0..<16]"
    by (simp add: upt_rec digit_value_def hex_digit_def)
  then have "\<forall>d \<in> set [0..<16]. digit_value (hex_digit True d) = d"
    by (simp only: list_all_iff)
  moreover assume "d < 16"
  ultimately show ?thesis by simp
qed

lemma hex_value_append: "hex_value (s @ [c]) = hex_value s * 16 + digit_value c"
  by (simp add: hex_value_def)

lemma hex_value_hex_str: "hex_value (hex_str True n) = n"
proof (induction "True" n rule: hex_str.induct)
  case (1 n)
  show ?case
  proof (cases "n < 16")
    case True
    then show ?thesis by (subst hex_str.simps) (simp add: hex_value_def digit_value_hex_digit)
  next
    case False
    have "hex_value (hex_str True (n div 16) @ [hex_digit True (n mod 16)]) = n div 16 * 16 + n mod 16"
      using 1 [OF False] by (simp only: hex_value_append) (simp add: digit_value_hex_digit)
    then show ?thesis using False by (subst hex_str.simps) simp
  qed
qed

lemma digit_value_zero: "digit_value (CHR ''0'') = 0"
  by (simp add: digit_value_def)

lemma hex_value_zeros: "hex_value (replicate k (CHR ''0'') @ s) = hex_value s"
proof -
  have "foldl (\<lambda>acc c. acc * 16 + digit_value c) 0 (replicate k (CHR ''0'')) = 0"
    by (induction k) (simp_all add: digit_value_zero)
  then show ?thesis by (simp add: hex_value_def)
qed

lemma format_016X_length: "length (format_016X v) = 16"
proof -
  have "unat v < 2 ^ 64" using unsigned_less [of v] by simp
  then have "unat v < 16 ^ 16" by simp
  then have "length (hex_str True (unat v)) \<le> 16" by (intro hex_str_length) simp_all
  then show ?thesis by (simp add: format_016X_def pad_zero_def)
qed

lemma format_016X_chars: "set (format_016X v) \<subseteq> set ''0123456789ABCDEF''"
  using hex_str_upper_chars [of "unat v"]
  by (auto simp: format_016X_def pad_zero_def)

lemma format_016X_value: "hex_value (format_016X v) = unat v"
  by (simp add: format_016X_def pad_zero_def hex_value_zeros hex_value_hex_str)

lemma DownloadInternal_frame:
  "requests (snd (DownloadInternal e c rp t dh ct w)) = requests w @ [download_request e c rp t dh w]"
  "hle_trace (snd (DownloadInternal e c rp t dh ct w)) = hle_trace w"
  "error_texts (snd (DownloadInternal e c rp t dh ct w)) = error_texts w"
  "dirs (snd (DownloadInternal e c rp t dh ct w)) = dirs w"
  "is_syncing (snd (DownloadInternal e c rp t dh ct w)) = is_syncing w"
  "log_lines (snd (DownloadInternal e c rp t dh ct w)) = log_lines w"
  by (simp_all add: DownloadInternal_def Let_def open_truncate_def Resize_def WriteBytes_def
      split: option.splits)

lemma build_id_header:
  "map_of (request_headers e c dh w) ''Boxcat-Build-Id'' = Some (format_016X (client_build_id c)) \<or>
   dh = ''Boxcat-Build-Id''"
  by (simp add: request_headers_def Let_def)

text \<open>
  C8. For every 64-bit identifier, \<^verbatim>\<open>{:016X}\<close> gives exactly 16 characters, each an
  uppercase hexadecimal digit, and the string read as a hexadecimal number is the
  identifier: it is the identifier's hexadecimal form padded with zeros on the left.
  The request of \<^verbatim>\<open>DownloadDataZip\<close> and of \<^verbatim>\<open>DownloadLaunchParam\<close> has this string of the
  title id as the segment of its path after \<^verbatim>\<open>/boxcat/titles/\<close>, and this string of the
  build id as the value of its header \<^verbatim>\<open>Boxcat-Build-Id\<close>.
\<close>

theorem identifiers_formatted_as_16_uppercase_hex_digits:
  "length (format_016X v) = 16 \<and>
   set (format_016X v) \<subseteq> set ''0123456789ABCDEF'' \<and>
   hex_value (format_016X v) = unat v \<and>
   req_path (last (requests (snd (DownloadDataZip e c w)))) =
     ''/boxcat/titles/'' @ format_016X (client_title_id c) @ ''/data'' \<and>
   req_path (last (requests (snd (DownloadLaunchParam e c w)))) =
     ''/boxcat/titles/'' @ format_016X (client_title_id c) @ ''/launchparam'' \<and>
   map_of (req_headers (last (requests (snd (DownloadDataZip e c w))))) ''Boxcat-Build-Id'' =
     Some (format_016X (client_build_id c)) \<and>
   map_of (req_headers (last (requests (snd (DownloadLaunchParam e c w))))) ''Boxcat-Build-Id'' =
     Some (format_016X (client_build_id c))"
proof -
  have zip: "last (requests (snd (DownloadDataZip e c w))) =
      download_request e c (BOXCAT_PATHNAME_DATA (client_title_id c)) TIMEOUT_SECONDS
        ''Boxcat-Data-Digest'' w"
    by (simp add: DownloadDataZip_def DownloadInternal_frame)
  have bin: "last (requests (snd (DownloadLaunchParam e c w))) =
      download_request e c (BOXCAT_PATHNAME_LAUNCHPARAM (client_title_id c)) (TIMEOUT_SECONDS div 3)
        ''Boxcat-LaunchParam-Digest'' w"
    by (simp add: DownloadLaunchParam_def DownloadInternal_frame)
  have h1: "map_of (request_headers e c ''Boxcat-Data-Digest'' w) ''Boxcat-Build-Id'' =
      Some (format_016X (client_build_id c))"
    using build_id_header [of e c "''Boxcat-Data-Digest''" w] by simp
  have h2: "map_of (request_headers e c ''Boxcat-LaunchParam-Digest'' w) ''Boxcat-Build-Id'' =
      Some (format_016X (client_build_id c))"
    using build_id_header [of e c "''Boxcat-LaunchParam-Digest''" w] by simp
  show ?thesis
    using format_016X_chars [of v]
    by (simp add: zip bin h1 h2 download_request_def BOXCAT_PATHNAME_DATA_def
        BOXCAT_PATHNAME_LAUNCHPARAM_def format_016X_length format_016X_value)
qed

subsection \<open>Classification of the response\<close>

lemma string_find_Some_iff:
  "string_find hay needle \<noteq> None \<longleftrightarrow> (\<exists>pre post. hay = pre @ needle @ post)"
proof (induction hay)
  case Nil
  then show ?case by auto
next
  case (Cons c cs)
  show ?case
  proof (cases "take (length needle) (c # cs) = needle")
    case True
    then have "c # cs = [] @ needle @ drop (length needle) (c # cs)"
      by (metis append_Nil append_take_drop_id)
    then have "\<exists>pre post. c # cs = pre @ needle @ post" by blast
    with True show ?thesis by simp
  next
    case False
    have "(\<exists>pre post. c # cs = pre @ needle @ post) \<longleftrightarrow> (\<exists>pre post. cs = pre @ needle @ post)"
    proof
      assume "\<exists>pre post. c # cs = pre @ needle @ post"
      then obtain pre post where eq: "c # cs = pre @ needle @ post" by blast
      show "\<exists>pre post. cs = pre @ needle @ post"
      proof (cases pre)
        case Nil
        with eq have "take (length needle) (c # cs) = needle" by simp
        with False show ?thesis by simp
      next
        case (Cons p ps)
        with eq have "cs = ps @ needle @ post" by simp
        then show ?thesis by blast
      qed
    next
      assume "\<exists>pre post. cs = pre @ needle @ post"
      then obtain pre post where "cs = pre @ needle @ post" by blast
      then have "c # cs = (c # pre) @ needle @ post" by simp
      then show "\<exists>pre post. c # cs = pre @ needle @ post" by blast
    qed
    with False Cons show ?thesis by simp
  qed
qed

lemma written_file:
  "WriteBytes p data (length data) (Resize p (length data) (open_truncate p w)) =
     w\<lparr>files := (files w)(p \<mapsto> data)\<rparr>"
  by (simp add: WriteBytes_def Resize_def open_truncate_def)

text \<open>
  C1. \<^verbatim>\<open>DownloadInternal\<close> (so \<^verbatim>\<open>DownloadDataZip\<close> and \<^verbatim>\<open>DownloadLaunchParam\<close>, which only fix its
  arguments) issues its one request and classifies the answer: no response gives
  \<open>NoResponse\<close>; status 304 gives \<open>Success\<close>, 301 \<open>BadClientVersion\<close>, 404
  \<open>NoMatchTitleId\<close>, 406 \<open>NoMatchBuildId\<close>, any other status but 200
  \<open>GeneralWebError\<close>; status 200 without a content-type header, or with one that does
  not contain the expected text, gives \<open>InvalidContentType\<close>. In all these cases the
  state changes by the recorded request only: no file is written. Status 200 with a
  content-type that contains the expected text gives \<open>Success\<close> with the body as the
  content of the staging file when the file opens, resizes and takes all the bytes,
  and \<open>GeneralFSError\<close> otherwise.
\<close>

theorem DownloadInternal_classification:
  "(case http_get e (download_request e c rp t dh w) of
      None \<Rightarrow>
        DownloadInternal e c rp t dh ct w =
          (NoResponse, w\<lparr>requests := requests w @ [download_request e c rp t dh w]\<rparr>)
    | Some response \<Rightarrow>
        (resp_status response = 304 \<longrightarrow>
           DownloadInternal e c rp t dh ct w =
             (Success, w\<lparr>requests := requests w @ [download_request e c rp t dh w]\<rparr>)) \<and>
        (resp_status response = 301 \<longrightarrow>
           DownloadInternal e c rp t dh ct w =
             (BadClientVersion, w\<lparr>requests := requests w @ [download_request e c rp t dh w]\<rparr>)) \<and>
        (resp_status response = 404 \<longrightarrow>
           DownloadInternal e c rp t dh ct w =
             (NoMatchTitleId, w\<lparr>requests := requests w @ [download_request e c rp t dh w]\<rparr>)) \<and>
        (resp_status response = 406 \<longrightarrow>
           DownloadInternal e c rp t dh ct w =
             (NoMatchBuildId, w\<lparr>requests := requests w @ [download_request e c rp t dh w]\<rparr>)) \<and>
        (resp_status response \<notin> {200, 301, 304, 404, 406} \<longrightarrow>
           DownloadInternal e c rp t dh ct w =
             (GeneralWebError, w\<lparr>requests := requests w @ [download_request e c rp t dh w]\<rparr>)) \<and>
        (resp_status response = 200 \<and>
         (headers_find (resp_headers response) ''content-type'' = None \<or>
          (\<exists>v. headers_find (resp_headers response) ''content-type'' = Some v \<and>
               (\<nexists>pre post. v = pre @ ct @ post))) \<longrightarrow>
           DownloadInternal e c rp t dh ct w =
             (InvalidContentType, w\<lparr>requests := requests w @ [download_request e c rp t dh w]\<rparr>)) \<and>
        (resp_status response = 200 \<and>
         (\<exists>v pre post. headers_find (resp_headers response) ''content-type'' = Some v \<and>
               v = pre @ ct @ post) \<longrightarrow>
           (if open_wb e (path c) \<and> resize_ok e (path c) (length (resp_body response)) \<and>
               write_count e (path c) (resp_body response) = length (resp_body response)
            then DownloadInternal e c rp t dh ct w =
                   (Success, w\<lparr>requests := requests w @ [download_request e c rp t dh w],
                               files := (files w)(path c \<mapsto> resp_body response)\<rparr>)
            else fst (DownloadInternal e c rp t dh ct w) = GeneralFSError)))"
proof (cases "http_get e (download_request e c rp t dh w)")
  case None
  then show ?thesis by (simp add: DownloadInternal_def Let_def)
next
  case (Some response)
  have codes: "ResponseStatus_NoUpdate = 304" "ResponseStatus_BadClientVersion = 301"
    "ResponseStatus_NoMatchTitleId = 404" "ResponseStatus_NoMatchBuildId = 406"
    "ResponseStatus_Ok = 200"
    by (simp_all add: ResponseStatus_NoUpdate_def ResponseStatus_BadClientVersion_def
        ResponseStatus_NoMatchTitleId_def ResponseStatus_NoMatchBuildId_def ResponseStatus_Ok_def)
  have sub: "\<And>v. (string_find v ct = None) = (\<nexists>pre post. v = pre @ ct @ post)"
    using string_find_Some_iff by blast
  have a: "resp_status response = 304 \<Longrightarrow> DownloadInternal e c rp t dh ct w =
      (Success, w\<lparr>requests := requests w @ [download_request e c rp t dh w]\<rparr>)"
    using Some by (simp add: DownloadInternal_def Let_def codes)
  have b: "resp_status response = 301 \<Longrightarrow> DownloadInternal e c rp t dh ct w =
      (BadClientVersion, w\<lparr>requests := requests w @ [download_request e c rp t dh w]\<rparr>)"
    using Some by (simp add: DownloadInternal_def Let_def codes)
  have c: "resp_status response = 404 \<Longrightarrow> DownloadInternal e c rp t dh ct w =
      (NoMatchTitleId, w\<lparr>requests := requests w @ [download_request e c rp t dh w]\<rparr>)"
    using Some by (simp add: DownloadInternal_def Let_def codes)
  have d: "resp_status response = 406 \<Longrightarrow> DownloadInternal e c rp t dh ct w =
      (NoMatchBuildId, w\<lparr>requests := requests w @ [download_request e c rp t dh w]\<rparr>)"
    using Some by (simp add: DownloadInternal_def Let_def codes)
  have f: "resp_status response \<notin> {200, 301, 304, 404, 406} \<Longrightarrow> DownloadInternal e c rp t dh ct w =
      (GeneralWebError, w\<lparr>requests := requests w @ [download_request e c rp t dh w]\<rparr>)"
    using Some by (simp add: DownloadInternal_def Let_def codes)
  have g: "resp_status response = 200 \<and>
         (headers_find (resp_headers response) ''content-type'' = None \<or>
          (\<exists>v. headers_find (resp_headers response) ''content-type'' = Some v \<and>
               (\<nexists>pre post. v = pre @ ct @ post))) \<Longrightarrow> DownloadInternal e c rp t dh ct w =
      (InvalidContentType, w\<lparr>requests := requests w @ [download_request e c rp t dh w]\<rparr>)"
    using Some by (auto simp: DownloadInternal_def Let_def codes sub)
  have h: "resp_status response = 200 \<and>
         (\<exists>v pre post. headers_find (resp_headers response) ''content-type'' = Some v \<and>
               v = pre @ ct @ post) \<Longrightarrow>
           (if open_wb e (path c) \<and> resize_ok e (path c) (length (resp_body response)) \<and>
               write_count e (path c) (resp_body response) = length (resp_body response)
            then DownloadInternal e c rp t dh ct w =
                   (Success, w\<lparr>requests := requests w @ [download_request e c rp t dh w],
                               files := (files w)(path c \<mapsto> resp_body response)\<rparr>)
            else fst (DownloadInternal e c rp t dh ct w) = GeneralFSError)"
  proof -
    assume asm: "resp_status response = 200 \<and>
         (\<exists>v pre post. headers_find (resp_headers response) ''content-type'' = Some v \<and>
               v = pre @ ct @ post)"
    then obtain v where v: "headers_find (resp_headers response) ''content-type'' = Some v"
      and "\<exists>pre post. v = pre @ ct @ post" by blast
    then have found: "string_find v ct \<noteq> None" using string_find_Some_iff by blast
    show ?thesis
      using Some asm v found
      by (simp add: DownloadInternal_def Let_def codes written_file)
  qed
  show ?thesis using Some a b c d f g h by simp
qed


theorem DownloadInternal_classification_witness:
  "fst (DownloadDataZip (example_env None None None)
          (new_Client ''/cache/data.zip'' 1 2) example_world) = NoResponse \<and>
   DownloadDataZip (example_env (Some (example_response 304 [] [])) None None)
          (new_Client ''/cache/data.zip'' 1 2) (example_world\<lparr>files := [''/cache/data.zip'' \<mapsto> [7]]\<rparr>) =
     (Success, example_world\<lparr>files := [''/cache/data.zip'' \<mapsto> [7]],
        requests := [download_request (example_env (Some (example_response 304 [] [])) None None)
          (new_Client ''/cache/data.zip'' 1 2) (BOXCAT_PATHNAME_DATA 1) TIMEOUT_SECONDS
          ''Boxcat-Data-Digest'' (example_world\<lparr>files := [''/cache/data.zip'' \<mapsto> [7]]\<rparr>)]\<rparr>) \<and>
   fst (DownloadDataZip (example_env (Some (example_response 301 [] [])) None None)
          (new_Client ''/cache/data.zip'' 1 2) example_world) = BadClientVersion \<and>
   fst (DownloadDataZip (example_env (Some (example_response 404 [] [])) None None)
          (new_Client ''/cache/data.zip'' 1 2) example_world) = NoMatchTitleId \<and>
   fst (DownloadLaunchParam (example_env (Some (example_response 406 [] [])) None None)
          (new_Client ''/cache/launchparam.bin'' 1 2) example_world) = NoMatchBuildId \<and>
   fst (DownloadDataZip (example_env (Some (example_response 500 [] [])) None None)
          (new_Client ''/cache/data.zip'' 1 2) example_world) = GeneralWebError \<and>
   fst (DownloadDataZip
          (example_env (Some (example_response 200 [(''Content-Type'', ''text/html'')] [1, 2, 3])) None None)
          (new_Client ''/cache/data.zip'' 1 2) example_world) = InvalidContentType \<and>
   fst (DownloadDataZip (example_env (Some (example_response 200 [] [1, 2, 3])) None None)
          (new_Client ''/cache/data.zip'' 1 2) example_world) = InvalidContentType \<and>
   fst (DownloadDataZip
          (example_env (Some (example_response 200 [(''Content-Type'', ''application/zip'')] [1, 2, 3])) None None)
          (new_Client ''/cache/data.zip'' 1 2) example_world) = Success \<and>
   files (snd (DownloadDataZip
          (example_env (Some (example_response 200 [(''Content-Type'', ''application/zip'')] [1, 2, 3])) None None)
          (new_Client ''/cache/data.zip'' 1 2) example_world)) ''/cache/data.zip'' = Some [1, 2, 3] \<and>
   fst (DownloadDataZip
          ((example_env (Some (example_response 200 [(''Content-Type'', ''application/zip'')] [1, 2, 3])) None None)
             \<lparr>resize_ok := \<lambda>p n. False\<rparr>)
          (new_Client ''/cache/data.zip'' 1 2) example_world) = GeneralFSError"
proof -
  note defs = DownloadDataZip_def DownloadLaunchParam_def example_env_def example_response_def
    new_Client_def tolower_def
  have ex: "\<exists>pre post. ''application/zip'' = pre @ ''application/zip'' @ post"
    using string_find_Some_iff [of "''application/zip''" "''application/zip''"] by simp
  have nex: "\<nexists>pre post. ''text/html'' = pre @ ''application/zip'' @ post"
    using string_find_Some_iff [of "''text/html''" "''application/zip''"] by simp
  note inst = DownloadInternal_classification [where c = "new_Client ''/cache/data.zip'' 1 2"
      and rp = "BOXCAT_PATHNAME_DATA 1" and t = TIMEOUT_SECONDS and dh = "''Boxcat-Data-Digest''"
      and ct = "''application/zip''"]
  have 1: "fst (DownloadDataZip (example_env None None None)
          (new_Client ''/cache/data.zip'' 1 2) example_world) = NoResponse"
    using inst [where e = "example_env None None None" and w = example_world]
    by (simp add: defs)
  have 2: "DownloadDataZip (example_env (Some (example_response 304 [] [])) None None)
          (new_Client ''/cache/data.zip'' 1 2) (example_world\<lparr>files := [''/cache/data.zip'' \<mapsto> [7]]\<rparr>) =
     (Success, example_world\<lparr>files := [''/cache/data.zip'' \<mapsto> [7]],
        requests := [download_request (example_env (Some (example_response 304 [] [])) None None)
          (new_Client ''/cache/data.zip'' 1 2) (BOXCAT_PATHNAME_DATA 1) TIMEOUT_SECONDS
          ''Boxcat-Data-Digest'' (example_world\<lparr>files := [''/cache/data.zip'' \<mapsto> [7]]\<rparr>)]\<rparr>)"
    using inst [where e = "example_env (Some (example_response 304 [] [])) None None"
        and w = "example_world\<lparr>files := [''/cache/data.zip'' \<mapsto> [7]]\<rparr>"]
    by (simp add: defs example_world_def)
  have 3: "fst (DownloadDataZip (example_env (Some (example_response 301 [] [])) None None)
          (new_Client ''/cache/data.zip'' 1 2) example_world) = BadClientVersion"
    using inst [where e = "example_env (Some (example_response 301 [] [])) None None"
        and w = example_world]
    by (simp add: defs)
  have 4: "fst (DownloadDataZip (example_env (Some (example_response 404 [] [])) None None)
          (new_Client ''/cache/data.zip'' 1 2) example_world) = NoMatchTitleId"
    using inst [where e = "example_env (Some (example_response 404 [] [])) None None"
        and w = example_world]
    by (simp add: defs)
  have 5: "fst (DownloadLaunchParam (example_env (Some (example_response 406 [] [])) None None)
          (new_Client ''/cache/launchparam.bin'' 1 2) example_world) = NoMatchBuildId"
    using DownloadInternal_classification [where c = "new_Client ''/cache/launchparam.bin'' 1 2"
      and rp = "BOXCAT_PATHNAME_LAUNCHPARAM 1" and t = "TIMEOUT_SECONDS div 3"
      and dh = "''Boxcat-LaunchParam-Digest''" and ct = "''application/octet-stream''"
      and e = "example_env (Some (example_response 406 [] [])) None None" and w = example_world]
    by (simp add: defs)
  have 6: "fst (DownloadDataZip (example_env (Some (example_response 500 [] [])) None None)
          (new_Client ''/cache/data.zip'' 1 2) example_world) = GeneralWebError"
    using inst [where e = "example_env (Some (example_response 500 [] [])) None None"
        and w = example_world]
    by (simp add: defs)
  have 7: "fst (DownloadDataZip
          (example_env (Some (example_response 200 [(''Content-Type'', ''text/html'')] [1, 2, 3])) None None)
          (new_Client ''/cache/data.zip'' 1 2) example_world) = InvalidContentType"
    using nex inst [where e = "example_env (Some (example_response 200 [(''Content-Type'', ''text/html'')] [1, 2, 3])) None None"
        and w = example_world]
    by (simp add: defs)
  have 8: "fst (DownloadDataZip (example_env (Some (example_response 200 [] [1, 2, 3])) None None)
          (new_Client ''/cache/data.zip'' 1 2) example_world) = InvalidContentType"
    using inst [where e = "example_env (Some (example_response 200 [] [1, 2, 3])) None None"
        and w = example_world]
    by (simp add: defs)
  have 9: "DownloadDataZip
          (example_env (Some (example_response 200 [(''Content-Type'', ''application/zip'')] [1, 2, 3])) None None)
          (new_Client ''/cache/data.zip'' 1 2) example_world =
       (Success, example_world\<lparr>requests := requests example_world @
           [download_request (example_env (Some (example_response 200 [(''Content-Type'', ''application/zip'')] [1, 2, 3])) None None)
              (new_Client ''/cache/data.zip'' 1 2) (BOXCAT_PATHNAME_DATA 1) TIMEOUT_SECONDS
              ''Boxcat-Data-Digest'' example_world],
         files := (files example_world)(''/cache/data.zip'' \<mapsto> [1, 2, 3])\<rparr>)"
    using ex inst [where e = "example_env (Some (example_response 200 [(''Content-Type'', ''application/zip'')] [1, 2, 3])) None None"
        and w = example_world]
    by (simp add: defs)
  have 10: "fst (DownloadDataZip
          ((example_env (Some (example_response 200 [(''Content-Type'', ''application/zip'')] [1, 2, 3])) None None)
             \<lparr>resize_ok := \<lambda>p n. False\<rparr>)
          (new_Client ''/cache/data.zip'' 1 2) example_world) = GeneralFSError"
    using ex inst [where e = "(example_env (Some (example_response 200 [(''Content-Type'', ''application/zip'')] [1, 2, 3])) None None)
             \<lparr>resize_ok := \<lambda>p n. False\<rparr>"
        and w = example_world]
    by (simp add: defs)
  show ?thesis
    unfolding 9 using 1 2 3 4 5 6 7 8 10 by simp
qed

subsection \<open>Which results are shown to the user\<close>

text \<open>
  C7. \<^verbatim>\<open>HandleDownloadDisplayResult\<close> leaves the state as it is exactly for \<open>Success\<close>,
  \<open>NoResponse\<close>, \<open>GeneralWebError\<close>, \<open>GeneralFSError\<close>, \<open>NoMatchTitleId\<close> and
  \<open>InvalidContentType\<close>, and shows one error text (the fixed main text with the
  result's message) exactly for \<open>NoMatchBuildId\<close> and \<open>BadClientVersion\<close>.
\<close>

theorem HandleDownloadDisplayResult_notifies_exactly_two:
  "(HandleDownloadDisplayResult res w = w) =
     (res \<in> {Success, NoResponse, GeneralWebError, GeneralFSError, NoMatchTitleId, InvalidContentType}) \<and>
   (HandleDownloadDisplayResult res w =
      w\<lparr>error_texts := error_texts w @
          [(''There was an error while attempting to use Boxcat.'', show_result res)]\<rparr>) =
     (res \<in> {NoMatchBuildId, BadClientVersion})"
proof -
  have neq: "\<And>x. w\<lparr>error_texts := error_texts w @ [x]\<rparr> \<noteq> w"
  proof
    fix x
    assume "w\<lparr>error_texts := error_texts w @ [x]\<rparr> = w"
    then have "error_texts (w\<lparr>error_texts := error_texts w @ [x]\<rparr>) = error_texts w" by simp
    then show False by simp
  qed
  show ?thesis
    using neq neq [symmetric]
    by (cases res) (simp_all add: HandleDownloadDisplayResult_def show_result_def)
qed

subsection \<open>The digest header\<close>

lemma ReadBytes_complete:
  "files w p = Some content \<Longrightarrow> read_count e p (length content) = length content \<Longrightarrow>
   snd (ReadBytes e w p (length content)) = content"
  by (simp add: ReadBytes_def)

text \<open>
  The request \<^verbatim>\<open>DownloadInternal\<close> issues carries the three fixed headers. When the
  staging path holds no file, it carries nothing else. When it holds a file, it
  carries one more header, under the operation's digest header name: the lowercase
  hex string of the digest of the bytes read from the file, which are the file's
  bytes when the read is complete.
\<close>

theorem digest_header_iff_staging_file:
  "(case files w (path c) of
      None \<Rightarrow>
        req_headers (last (requests (snd (DownloadInternal e c rp t dh ct w)))) =
          [(''Boxcat-Client-Version'', ''1''), (''Boxcat-Client-Type'', ''yuzu''),
           (''Boxcat-Build-Id'', format_016X (client_build_id c))]
    | Some content \<Rightarrow>
        req_headers (last (requests (snd (DownloadInternal e c rp t dh ct w)))) =
          [(''Boxcat-Client-Version'', ''1''), (''Boxcat-Client-Type'', ''yuzu''),
           (''Boxcat-Build-Id'', format_016X (client_build_id c)),
           (dh, HexArrayToString (DigestFile e (snd (ReadBytes e w (path c) (length content)))) False)] \<and>
        (read_count e (path c) (length content) = length content \<longrightarrow>
           req_headers (last (requests (snd (DownloadInternal e c rp t dh ct w)))) =
             [(''Boxcat-Client-Version'', ''1''), (''Boxcat-Client-Type'', ''yuzu''),
              (''Boxcat-Build-Id'', format_016X (client_build_id c)),
              (dh, HexArrayToString (sha256 e content) False)]))"
proof (cases "files w (path c)")
  case None
  then show ?thesis
    by (simp add: DownloadInternal_frame download_request_def request_headers_def Exists_def
        BOXCAT_API_VERSION_def BOXCAT_CLIENT_TYPE_def)
next
  case (Some content)
  then show ?thesis
    using ReadBytes_complete [of w "path c" content e]
    by (simp add: DownloadInternal_frame download_request_def request_headers_def Exists_def
        GetSize_def Let_def DigestFile_def BOXCAT_API_VERSION_def BOXCAT_CLIENT_TYPE_def)
qed

theorem digest_header_iff_staging_file_witness:
  "req_headers (last (requests (snd (DownloadDataZip (example_env None None None)
      (new_Client ''/cache/data.zip'' 1 2)
      (example_world\<lparr>files := [''/cache/data.zip'' \<mapsto> [7]]\<rparr>))))) =
     [(''Boxcat-Client-Version'', ''1''), (''Boxcat-Client-Type'', ''yuzu''),
      (''Boxcat-Build-Id'', format_016X 2),
      (''Boxcat-Data-Digest'', HexArrayToString (sha256 (example_env None None None) [7]) False)] \<and>
   req_headers (last (requests (snd (DownloadDataZip (example_env None None None)
      (new_Client ''/cache/data.zip'' 1 2) example_world)))) =
     [(''Boxcat-Client-Version'', ''1''), (''Boxcat-Client-Type'', ''yuzu''),
      (''Boxcat-Build-Id'', format_016X 2)]"
proof -
  have a: "read_count (example_env None None None) (path (new_Client ''/cache/data.zip'' 1 2))
      (length [7 :: u8]) = length [7 :: u8]"
    by (simp add: example_env_def)
  have f: "files (example_world\<lparr>files := [''/cache/data.zip'' \<mapsto> [7]]\<rparr>)
      (path (new_Client ''/cache/data.zip'' 1 2)) = Some [7]"
    by (simp add: new_Client_def)
  have g: "files example_world (path (new_Client ''/cache/data.zip'' 1 2)) = None"
    by (simp add: new_Client_def example_world_def)
  have 1: "req_headers (last (requests (snd (DownloadDataZip (example_env None None None)
      (new_Client ''/cache/data.zip'' 1 2)
      (example_world\<lparr>files := [''/cache/data.zip'' \<mapsto> [7]]\<rparr>))))) =
     [(''Boxcat-Client-Version'', ''1''), (''Boxcat-Client-Type'', ''yuzu''),
      (''Boxcat-Build-Id'', format_016X 2),
      (''Boxcat-Data-Digest'', HexArrayToString (sha256 (example_env None None None) [7]) False)]"
    using digest_header_iff_staging_file [where e = "example_env None None None"
        and c = "new_Client ''/cache/data.zip'' 1 2"
        and w = "example_world\<lparr>files := [''/cache/data.zip'' \<mapsto> [7]]\<rparr>"
        and rp = "BOXCAT_PATHNAME_DATA (client_title_id (new_Client ''/cache/data.zip'' 1 2))"
        and t = TIMEOUT_SECONDS and dh = "''Boxcat-Data-Digest''" and ct = "''application/zip''",
        unfolded f option.case, THEN conjunct2, rule_format, OF a]
    unfolding DownloadDataZip_def by (simp add: new_Client_def)
  have 2: "req_headers (last (requests (snd (DownloadDataZip (example_env None None None)
      (new_Client ''/cache/data.zip'' 1 2) example_world)))) =
     [(''Boxcat-Client-Version'', ''1''), (''Boxcat-Client-Type'', ''yuzu''),
      (''Boxcat-Build-Id'', format_016X 2)]"
    using digest_header_iff_staging_file [where e = "example_env None None None"
        and c = "new_Client ''/cache/data.zip'' 1 2" and w = example_world
        and rp = "BOXCAT_PATHNAME_DATA (client_title_id (new_Client ''/cache/data.zip'' 1 2))"
        and t = TIMEOUT_SECONDS and dh = "''Boxcat-Data-Digest''" and ct = "''application/zip''"]
    unfolding g DownloadDataZip_def by (simp add: new_Client_def)
  show ?thesis using 1 2 by simp
qed

text \<open>
  C4 at a read that falls short. The staging file holds the one byte 7 and the read
  transfers no byte (the case lines 230 and 338 of the source test for, and line 140
  does not). The buffer keeps its zero, and the digest header attached is the hex
  string of the digest of that zero byte, whatever the digest function \<open>h\<close>: not the
  digest of the file's bytes.
\<close>

theorem digest_header_after_short_read:
  "req_headers (last (requests (snd (DownloadDataZip
      ((example_env None None None)\<lparr>sha256 := h, read_count := \<lambda>p n. 0\<rparr>)
      (new_Client ''/cache/data.zip'' 1 2)
      (example_world\<lparr>files := [''/cache/data.zip'' \<mapsto> [7]]\<rparr>))))) =
     [(''Boxcat-Client-Version'', ''1''), (''Boxcat-Client-Type'', ''yuzu''),
      (''Boxcat-Build-Id'', format_016X 2),
      (''Boxcat-Data-Digest'', HexArrayToString (h [0]) False)]"
  by (simp add: DownloadDataZip_def DownloadInternal_frame download_request_def
      request_headers_def Exists_def GetSize_def ReadBytes_def DigestFile_def Let_def
      example_env_def new_Client_def BOXCAT_API_VERSION_def BOXCAT_CLIENT_TYPE_def)

subsection \<open>One callback, under the lock\<close>

lemma DownloadDataZip_frame:
  "requests (snd (DownloadDataZip e c w)) =
     requests w @ [download_request e c (BOXCAT_PATHNAME_DATA (client_title_id c)) TIMEOUT_SECONDS
                     ''Boxcat-Data-Digest'' w]"
  "hle_trace (snd (DownloadDataZip e c w)) = hle_trace w"
  by (simp_all add: DownloadDataZip_def DownloadInternal_frame)

lemma SynchronizeInternal_trace:
  "hle_trace (SynchronizeInternal e title dir_name w) =
     hle_trace w @ [LockAcquired, CallbackInvoked True, LockReleased] \<or>
   hle_trace (SynchronizeInternal e title dir_name w) =
     hle_trace w @ [LockAcquired, CallbackInvoked False, LockReleased]"
  by (simp add: SynchronizeInternal_def Let_def case_prod_beta failure_def LOG_def Delete_def
      HandleDownloadDisplayResult_def DownloadDataZip_frame split: option.splits)

lemma SynchronizeInternal_requests:
  "requests (SynchronizeInternal e title dir_name w) =
     (if bcat_boxcat_local e then requests w
      else requests w @
        [download_request e
           (new_Client (GetZIPFilePath e (title_id title)) (title_id title) (build_id title))
           (BOXCAT_PATHNAME_DATA (title_id title)) TIMEOUT_SECONDS ''Boxcat-Data-Digest'' w])"
  by (simp add: SynchronizeInternal_def Let_def case_prod_beta failure_def LOG_def Delete_def
      HandleDownloadDisplayResult_def DownloadDataZip_frame new_Client_def split: option.splits)

text \<open>
  C2. On every path of \<^verbatim>\<open>SynchronizeInternal\<close>, also when reached through \<^verbatim>\<open>Synchronize\<close> or
  \<^verbatim>\<open>SynchronizeDirectory\<close>, what the call adds to the trace of the HLE lock and the
  callback is: the lock taken, the callback invoked once with a boolean, the lock
  released. There is no retry: the call issues no request under the local override
  and exactly one request otherwise.
\<close>

theorem callback_once_under_hle_lock:
  "(\<exists>b. hle_trace (SynchronizeInternal e title dir_name w) =
          hle_trace w @ [LockAcquired, CallbackInvoked b, LockReleased]) \<and>
   (\<exists>b. hle_trace (snd (Synchronize e title w)) =
          hle_trace w @ [LockAcquired, CallbackInvoked b, LockReleased]) \<and>
   (\<exists>b. hle_trace (snd (SynchronizeDirectory e title name w)) =
          hle_trace w @ [LockAcquired, CallbackInvoked b, LockReleased]) \<and>
   length (requests (SynchronizeInternal e title dir_name w)) =
     (if bcat_boxcat_local e then length (requests w) else length (requests w) + 1)"
proof -
  have a: "\<And>dn v. \<exists>b. hle_trace (SynchronizeInternal e title dn v) =
      hle_trace v @ [LockAcquired, CallbackInvoked b, LockReleased]"
    using SynchronizeInternal_trace by blast
  have b: "\<exists>b. hle_trace (snd (Synchronize e title w)) =
      hle_trace w @ [LockAcquired, CallbackInvoked b, LockReleased]"
    using a [of None "w\<lparr>is_syncing := True\<rparr>"] by (simp add: Synchronize_def)
  have c: "\<exists>b. hle_trace (snd (SynchronizeDirectory e title name w)) =
      hle_trace w @ [LockAcquired, CallbackInvoked b, LockReleased]"
    using a [of "Some name" "w\<lparr>is_syncing := True\<rparr>"] by (simp add: SynchronizeDirectory_def)
  show ?thesis using a [of dir_name w] b c by (simp add: SynchronizeInternal_requests)
qed

subsection \<open>The staging file after a failed download\<close>








subsection \<open>The local override\<close>

lemma read_launch_parameter_result:
  "fst (read_launch_parameter e p w) =
     (case files w p of
        None \<Rightarrow> None
      | Some content \<Rightarrow>
          if content = [] \<or> read_count e p (length content) \<noteq> length content then None
          else Some content)"
  by (simp add: read_launch_parameter_def GetSize_def ReadBytes_def Let_def split: option.splits)

lemma read_launch_parameter_requests:
  "requests (snd (read_launch_parameter e p w)) = requests w"
  by (simp add: read_launch_parameter_def Let_def case_prod_beta LOG_def)

text \<open>
  C5, as the code has it. With the local override set, \<^verbatim>\<open>SynchronizeInternal\<close> (so
  \<^verbatim>\<open>Synchronize\<close> and \<^verbatim>\<open>SynchronizeDirectory\<close>) logs one line and reports success under
  the lock, with no request issued; \<^verbatim>\<open>Clear\<close> logs one line and returns success with
  nothing else changed; \<^verbatim>\<open>GetLaunchParameter\<close> issues no request, and returns the bytes of
  the launch parameter staging file when that file exists, is not empty and is read
  completely, and no value otherwise.
\<close>

theorem local_override_skips_network:
  assumes "bcat_boxcat_local e"
  shows
  "SynchronizeInternal e title dir_name w =
     w\<lparr>hle_trace := hle_trace w @ [LockAcquired, CallbackInvoked True, LockReleased],
       log_lines := log_lines w @ [''Boxcat using local data by override, skipping download.'']\<rparr> \<and>
   Synchronize e title w =
     (True, w\<lparr>hle_trace := hle_trace w @ [LockAcquired, CallbackInvoked True, LockReleased],
              is_syncing := True,
              log_lines := log_lines w @ [''Boxcat using local data by override, skipping download.'']\<rparr>) \<and>
   SynchronizeDirectory e title name w =
     (True, w\<lparr>hle_trace := hle_trace w @ [LockAcquired, CallbackInvoked True, LockReleased],
              is_syncing := True,
              log_lines := log_lines w @ [''Boxcat using local data by override, skipping download.'']\<rparr>) \<and>
   Clear e (title_id title) w =
     Inr (True, w\<lparr>log_lines := log_lines w @ [''Boxcat using local data by override, skipping clear.'']\<rparr>) \<and>
   requests (snd (GetLaunchParameter e title w)) = requests w \<and>
   fst (GetLaunchParameter e title w) =
     (case files w (GetBINFilePath e (title_id title)) of
        None \<Rightarrow> None
      | Some content \<Rightarrow>
          if content = [] \<or>
             read_count e (GetBINFilePath e (title_id title)) (length content) \<noteq> length content
          then None
          else Some content)"
proof -
  have s: "\<And>dn v. SynchronizeInternal e title dn v =
     v\<lparr>hle_trace := hle_trace v @ [LockAcquired, CallbackInvoked True, LockReleased],
       log_lines := log_lines v @ [''Boxcat using local data by override, skipping download.'']\<rparr>"
    using assms by (simp add: SynchronizeInternal_def LOG_def Let_def)
  have c: "Clear e (title_id title) w =
     Inr (True, w\<lparr>log_lines := log_lines w @ [''Boxcat using local data by override, skipping clear.'']\<rparr>)"
    using assms by (simp add: Clear_def LOG_def)
  have g: "GetLaunchParameter e title w =
      read_launch_parameter e (GetBINFilePath e (title_id title))
        (LOG ''Boxcat using local data by override, skipping download.'' w)"
    using assms by (simp add: GetLaunchParameter_def Let_def)
  have g1: "requests (snd (GetLaunchParameter e title w)) = requests w"
    by (simp add: g read_launch_parameter_requests LOG_def)
  have g2: "fst (GetLaunchParameter e title w) =
     (case files w (GetBINFilePath e (title_id title)) of
        None \<Rightarrow> None
      | Some content \<Rightarrow>
          if content = [] \<or>
             read_count e (GetBINFilePath e (title_id title)) (length content) \<noteq> length content
          then None
          else Some content)"
    by (simp add: g read_launch_parameter_result LOG_def)
  show ?thesis
    using c g1 g2 by (simp add: s Synchronize_def SynchronizeDirectory_def)
qed

theorem local_override_skips_network_witness:
  "fst (GetLaunchParameter ((example_env None None None)\<lparr>bcat_boxcat_local := True\<rparr>) example_title
      (example_world\<lparr>files :=
         [GetBINFilePath ((example_env None None None)\<lparr>bcat_boxcat_local := True\<rparr>) (title_id example_title)
            \<mapsto> [1, 2, 3]]\<rparr>)) = Some [1, 2, 3] \<and>
   requests (snd (GetLaunchParameter ((example_env None None None)\<lparr>bcat_boxcat_local := True\<rparr>) example_title
      (example_world\<lparr>files :=
         [GetBINFilePath ((example_env None None None)\<lparr>bcat_boxcat_local := True\<rparr>) (title_id example_title)
            \<mapsto> [1, 2, 3]]\<rparr>))) = [] \<and>
   hle_trace (SynchronizeInternal ((example_env None None None)\<lparr>bcat_boxcat_local := True\<rparr>) example_title None
      example_world) = [LockAcquired, CallbackInvoked True, LockReleased] \<and>
   requests (SynchronizeInternal ((example_env None None None)\<lparr>bcat_boxcat_local := True\<rparr>) example_title None
      example_world) = [] \<and>
   map_sum id fst (Clear ((example_env None None None)\<lparr>bcat_boxcat_local := True\<rparr>) (title_id example_title)
      example_world) = Inr True"
proof -
  have l: "bcat_boxcat_local ((example_env None None None)\<lparr>bcat_boxcat_local := True\<rparr>)"
    by simp
  have r: "read_count ((example_env None None None)\<lparr>bcat_boxcat_local := True\<rparr>) = (\<lambda>p n. n)"
    by (simp add: example_env_def)
  show ?thesis
    using local_override_skips_network [OF l, of example_title None
        "example_world\<lparr>files :=
         [GetBINFilePath ((example_env None None None)\<lparr>bcat_boxcat_local := True\<rparr>) (title_id example_title)
            \<mapsto> [1, 2, 3]]\<rparr>"]
      local_override_skips_network [OF l, of example_title None example_world]
    by (simp add: r example_world_def)
qed

text \<open>C5 as the specification words it, \<^verbatim>\<open>GetLaunchParameter\<close> succeeding under the
  local override, does not hold: with the override set and no launch parameter staging
  file, \<^verbatim>\<open>GetLaunchParameter\<close> returns no value.\<close>

theorem GetLaunchParameter_local_override_counterexample:
  "bcat_boxcat_local ((example_env None None None)\<lparr>bcat_boxcat_local := True\<rparr>) \<and>
   fst (GetLaunchParameter ((example_env None None None)\<lparr>bcat_boxcat_local := True\<rparr>) example_title
          example_world) = None"
  by (simp add: GetLaunchParameter_def read_launch_parameter_def GetSize_def ReadBytes_def
      LOG_def Let_def example_world_def)

subsection \<open>Clear and the directory getter\<close>

text \<open>
  C9. Without the local override, \<^verbatim>\<open>Clear\<close> dereferences what the directory getter
  returns: on \<^verbatim>\<open>nullptr\<close> the call is a null dereference, it returns neither \<^verbatim>\<open>false\<close> nor
  \<^verbatim>\<open>true\<close>; on a directory it returns a boolean, \<^verbatim>\<open>false\<close> only from a deletion that
  failed.
\<close>

theorem Clear_dereferences_directory_unchecked:
  assumes "\<not> bcat_boxcat_local e"
  shows
  "(dirs w title = None \<longrightarrow>
      Clear e title w = Inl NullDereference \<and> (\<forall>ok w'. Clear e title w \<noteq> Inr (ok, w'))) \<and>
   (\<forall>dir. dirs w title = Some dir \<longrightarrow>
      Clear e title w =
        Inr (fst (delete_each e (map GetName (GetSubdirectories dir)) dir),
             w\<lparr>dirs := (dirs w)(title \<mapsto>
                  snd (delete_each e (map GetName (GetSubdirectories dir)) dir))\<rparr>))"
  using assms by (simp add: Clear_def Let_def case_prod_beta)

theorem Clear_dereferences_directory_unchecked_witness:
  "Clear (example_env None None None) 1 example_world = Inl NullDereference \<and>
   Clear (example_env None None None) 1
     (example_world\<lparr>dirs := [1 \<mapsto> VDir ''root'' [] [VDir ''A'' [] [], VDir ''B'' [] []]]\<rparr>) =
     Inr (True, example_world\<lparr>dirs := [1 \<mapsto> VDir ''root'' [] []]\<rparr>)"
proof -
  have l: "\<not> bcat_boxcat_local (example_env None None None)"
    by (simp add: example_env_def)
  have d: "DeleteSubdirectoryRecursive (example_env None None None) =
      (\<lambda>dir name. (True, VDir (GetName dir) (GetFiles dir)
                           (filter (\<lambda>d. GetName d \<noteq> name) (GetSubdirectories dir))))"
    by (simp add: example_env_def)
  show ?thesis
    using Clear_dereferences_directory_unchecked [OF l, of example_world 1]
      Clear_dereferences_directory_unchecked [OF l,
        of "example_world\<lparr>dirs := [1 \<mapsto> VDir ''root'' [] [VDir ''A'' [] [], VDir ''B'' [] []]]\<rparr>" 1]
    by (simp add: d example_world_def)
qed

subsection \<open>SetPassphrase\<close>

lemma download_request_log:
  "download_request e c rp t dh (w\<lparr>log_lines := l\<rparr>) = download_request e c rp t dh w"
  by (simp add: download_request_def request_headers_def Exists_def ReadBytes_def GetSize_def Let_def)

lemma DownloadInternal_log:
  "DownloadInternal e c rp t dh ct (w\<lparr>log_lines := l\<rparr>) =
     (fst (DownloadInternal e c rp t dh ct w),
      (snd (DownloadInternal e c rp t dh ct w))\<lparr>log_lines := l\<rparr>)"
  by (simp add: DownloadInternal_def download_request_log Let_def open_truncate_def Resize_def
      WriteBytes_def split: option.splits)

lemma read_launch_parameter_log:
  "fst (read_launch_parameter e p (w\<lparr>log_lines := l\<rparr>)) = fst (read_launch_parameter e p w)"
  "(snd (read_launch_parameter e p (w\<lparr>log_lines := l\<rparr>)))\<lparr>log_lines := []\<rparr> =
     (snd (read_launch_parameter e p w))\<lparr>log_lines := []\<rparr>"
  by (simp_all add: read_launch_parameter_def Let_def case_prod_beta LOG_def GetSize_def ReadBytes_def)

lemma SynchronizeInternal_log:
  "(SynchronizeInternal e title dir_name (w\<lparr>log_lines := l\<rparr>))\<lparr>log_lines := []\<rparr> =
     (SynchronizeInternal e title dir_name w)\<lparr>log_lines := []\<rparr>"
proof -
  obtain res w1 where d: "DownloadDataZip e
      (new_Client (GetZIPFilePath e (title_id title)) (title_id title) (build_id title)) w = (res, w1)"
    by (cases "DownloadDataZip e
      (new_Client (GetZIPFilePath e (title_id title)) (title_id title) (build_id title)) w")
  have d': "DownloadDataZip e
      (new_Client (GetZIPFilePath e (title_id title)) (title_id title) (build_id title))
      (w\<lparr>log_lines := l\<rparr>) = (res, w1\<lparr>log_lines := l\<rparr>)"
    using d by (simp add: DownloadDataZip_def DownloadInternal_log)
  show ?thesis
    unfolding SynchronizeInternal_def
    by (simp add: d d' HandleDownloadDisplayResult_def Let_def case_prod_beta failure_def
        LOG_def Delete_def GetSize_def ReadBytes_def split: option.splits)
qed

lemma GetLaunchParameter_log:
  "fst (GetLaunchParameter e title (w\<lparr>log_lines := l\<rparr>)) = fst (GetLaunchParameter e title w)"
  "(snd (GetLaunchParameter e title (w\<lparr>log_lines := l\<rparr>)))\<lparr>log_lines := []\<rparr> =
     (snd (GetLaunchParameter e title w))\<lparr>log_lines := []\<rparr>"
  by (simp_all add: GetLaunchParameter_def DownloadLaunchParam_def DownloadInternal_log
      HandleDownloadDisplayResult_def read_launch_parameter_log Let_def case_prod_beta LOG_def
      Delete_def)

lemma Clear_log:
  "map_sum id (\<lambda>r. (fst r, (snd r)\<lparr>log_lines := []\<rparr>)) (Clear e t (w\<lparr>log_lines := l\<rparr>)) =
   map_sum id (\<lambda>r. (fst r, (snd r)\<lparr>log_lines := []\<rparr>)) (Clear e t w)"
  by (simp add: Clear_def Let_def case_prod_beta LOG_def split: option.splits)

lemma GetStatus_log:
  "GetStatus e g gm (w\<lparr>log_lines := l\<rparr>) =
     (fst (GetStatus e g gm w), fst (snd (GetStatus e g gm w)), fst (snd (snd (GetStatus e g gm w))),
      (snd (snd (snd (GetStatus e g gm w))))\<lparr>log_lines := l\<rparr>)"
  by (simp add: GetStatus_def Let_def split: option.splits sum.splits json.splits prod.splits)

text \<open>
  C10. \<^verbatim>\<open>SetPassphrase\<close> appends one line to the log and changes nothing else. Every
  operation of the backend, run after it, returns what it returns without it and
  leaves the same state, the log apart (which holds the one line more).
\<close>

theorem SetPassphrase_only_logs:
  "SetPassphrase t p w =
     w\<lparr>log_lines := log_lines w @
        [''called, title_id='' @ format_016X t @ '', passphrase='' @ HexArrayToString p True]\<rparr> \<and>
   fst (Synchronize e title (SetPassphrase t p w)) = fst (Synchronize e title w) \<and>
   (snd (Synchronize e title (SetPassphrase t p w)))\<lparr>log_lines := []\<rparr> =
     (snd (Synchronize e title w))\<lparr>log_lines := []\<rparr> \<and>
   fst (SynchronizeDirectory e title name (SetPassphrase t p w)) = fst (SynchronizeDirectory e title name w) \<and>
   (snd (SynchronizeDirectory e title name (SetPassphrase t p w)))\<lparr>log_lines := []\<rparr> =
     (snd (SynchronizeDirectory e title name w))\<lparr>log_lines := []\<rparr> \<and>
   map_sum id (\<lambda>r. (fst r, (snd r)\<lparr>log_lines := []\<rparr>)) (Clear e t' (SetPassphrase t p w)) =
     map_sum id (\<lambda>r. (fst r, (snd r)\<lparr>log_lines := []\<rparr>)) (Clear e t' w) \<and>
   fst (GetLaunchParameter e title (SetPassphrase t p w)) = fst (GetLaunchParameter e title w) \<and>
   (snd (GetLaunchParameter e title (SetPassphrase t p w)))\<lparr>log_lines := []\<rparr> =
     (snd (GetLaunchParameter e title w))\<lparr>log_lines := []\<rparr> \<and>
   fst (GetStatus e g gm (SetPassphrase t p w)) = fst (GetStatus e g gm w) \<and>
   fst (snd (GetStatus e g gm (SetPassphrase t p w))) = fst (snd (GetStatus e g gm w)) \<and>
   fst (snd (snd (GetStatus e g gm (SetPassphrase t p w)))) = fst (snd (snd (GetStatus e g gm w))) \<and>
   (snd (snd (snd (GetStatus e g gm (SetPassphrase t p w)))))\<lparr>log_lines := []\<rparr> =
     (snd (snd (snd (GetStatus e g gm w))))\<lparr>log_lines := []\<rparr> \<and>
   (SetPassphrase t' p' (SetPassphrase t p w))\<lparr>log_lines := []\<rparr> =
     (SetPassphrase t' p' w)\<lparr>log_lines := []\<rparr>"
proof -
  define l where "l = log_lines w @
      [''called, title_id='' @ format_016X t @ '', passphrase='' @ HexArrayToString p True]"
  have sp: "SetPassphrase t p w = w\<lparr>log_lines := l\<rparr>"
    by (simp add: SetPassphrase_def LOG_def l_def)
  have comm: "w\<lparr>log_lines := l, is_syncing := True\<rparr> = (w\<lparr>is_syncing := True\<rparr>)\<lparr>log_lines := l\<rparr>"
    by simp
  have sync: "\<And>dn. (SynchronizeInternal e title dn (w\<lparr>log_lines := l, is_syncing := True\<rparr>))\<lparr>log_lines := []\<rparr> =
      (SynchronizeInternal e title dn (w\<lparr>is_syncing := True\<rparr>))\<lparr>log_lines := []\<rparr>"
    unfolding comm by (rule SynchronizeInternal_log)
  have 1: "SetPassphrase t p w =
     w\<lparr>log_lines := log_lines w @
        [''called, title_id='' @ format_016X t @ '', passphrase='' @ HexArrayToString p True]\<rparr>"
    by (simp add: sp l_def)
  have 2: "fst (Synchronize e title (SetPassphrase t p w)) = fst (Synchronize e title w)"
    "fst (SynchronizeDirectory e title name (SetPassphrase t p w)) = fst (SynchronizeDirectory e title name w)"
    by (simp_all add: Synchronize_def SynchronizeDirectory_def)
  have 3: "(snd (Synchronize e title (SetPassphrase t p w)))\<lparr>log_lines := []\<rparr> =
     (snd (Synchronize e title w))\<lparr>log_lines := []\<rparr>"
    "(snd (SynchronizeDirectory e title name (SetPassphrase t p w)))\<lparr>log_lines := []\<rparr> =
     (snd (SynchronizeDirectory e title name w))\<lparr>log_lines := []\<rparr>"
    by (simp_all add: Synchronize_def SynchronizeDirectory_def sp sync)
  have 4: "map_sum id (\<lambda>r. (fst r, (snd r)\<lparr>log_lines := []\<rparr>)) (Clear e t' (SetPassphrase t p w)) =
     map_sum id (\<lambda>r. (fst r, (snd r)\<lparr>log_lines := []\<rparr>)) (Clear e t' w)"
    unfolding sp by (rule Clear_log)
  have 5: "fst (GetLaunchParameter e title (SetPassphrase t p w)) = fst (GetLaunchParameter e title w)"
    "(snd (GetLaunchParameter e title (SetPassphrase t p w)))\<lparr>log_lines := []\<rparr> =
     (snd (GetLaunchParameter e title w))\<lparr>log_lines := []\<rparr>"
    unfolding sp by (rule GetLaunchParameter_log)+
  have 6: "fst (GetStatus e g gm (SetPassphrase t p w)) = fst (GetStatus e g gm w)"
    "fst (snd (GetStatus e g gm (SetPassphrase t p w))) = fst (snd (GetStatus e g gm w))"
    "fst (snd (snd (GetStatus e g gm (SetPassphrase t p w)))) = fst (snd (snd (GetStatus e g gm w)))"
    "(snd (snd (snd (GetStatus e g gm (SetPassphrase t p w)))))\<lparr>log_lines := []\<rparr> =
     (snd (snd (snd (GetStatus e g gm w))))\<lparr>log_lines := []\<rparr>"
    unfolding sp by (simp_all add: GetStatus_log)
  have 7: "(SetPassphrase t' p' (SetPassphrase t p w))\<lparr>log_lines := []\<rparr> =
     (SetPassphrase t' p' w)\<lparr>log_lines := []\<rparr>"
    by (simp add: SetPassphrase_def LOG_def)
  show ?thesis
    using 1 2 3 4 5 6 7 by blast
qed

subsection \<open>The status feed\<close>

text \<open>
  \<^verbatim>\<open>GetStatus\<close> returns \<open>ParseError\<close> exactly when a response arrived, its status is not
  301 and its body does not parse as JSON.
\<close>

theorem GetStatus_ParseError_iff_parse_failure:
  "(fst (GetStatus e g gm w) = Inr StatusResult_ParseError) =
     (\<exists>response. http_get e status_request = Some response \<and>
        resp_status response \<noteq> 301 \<and> json_parse e (resp_body response) = None)"
  by (auto simp: GetStatus_def Let_def ResponseStatus_BadClientVersion_def
      split: option.splits sum.splits json.splits prod.splits if_splits)

text \<open>
  C6 at a body the code can receive. The body \<^verbatim>\<open>{"online": true, "global": 5}\<close> parses
  as JSON; \<^verbatim>\<open>json["global"]\<close> is not null, so the source calls \<^verbatim>\<open>get<std::string>()\<close> on
  the number, which throws \<^verbatim>\<open>type_error\<close> 302. The handler catches \<^verbatim>\<open>parse_error\<close> only:
  the exception leaves \<^verbatim>\<open>GetStatus\<close>, which returns no \<open>StatusResult\<close> at all.
\<close>

theorem GetStatus_global_number_type_error:
  "GetStatus
     (example_env (Some (example_response 200 [] []))
        None (Some (JObject [(''online'', JBool True), (''global'', JNumber 5)])))
     None Map.empty example_world =
   (Inl (JsonTypeError 302), None, Map.empty, example_world\<lparr>requests := [status_request]\<rparr>)"
  by (simp add: GetStatus_def Let_def example_env_def example_response_def example_world_def
      ResponseStatus_BadClientVersion_def json_at_def get_bool_def get_string_def)

end
